theory Spec2Isabelle
  imports Main
begin

section \<open>The Gradio entry point of the computer-use demo\<close>

text \<open>
  A shallow embedding of \<^verbatim>\<open>computer_use_demo/gradio_app.py\<close>: the two persistence
  helpers \<^verbatim>\<open>load_from_storage\<close> and \<^verbatim>\<open>save_to_storage\<close>, the places of
  \<^verbatim>\<open>create_app\<close> that read them, and the asynchronous generator \<^verbatim>\<open>chat\<close> with
  its nested generator \<^verbatim>\<open>output_callback\<close>.

  A Python \<^verbatim>\<open>str\<close> is a \<^typ>\<open>string\<close>, read as the list of its code points (a
  \<^typ>\<open>char\<close> holds the code points below 256). A call that can raise returns a sum
  with the exception on the left. A generator is the list of the values it yields together
  with the way it ends: \<open>None\<close> when it is exhausted, \<open>Some e\<close> when it raises
  \<open>e\<close> after the values yielded so far.
\<close>

subsection \<open>Exceptions\<close>

text \<open>
  The failures of the file system that \<^verbatim>\<open>pathlib\<close> reports: \<^verbatim>\<open>OSError\<close> and its
  subclasses, and \<^verbatim>\<open>UnicodeDecodeError\<close> from \<^verbatim>\<open>read_text\<close>. Each carries the text
  that \<^verbatim>\<open>str(e)\<close> gives.
\<close>

datatype storage_failure = OSError string | UnicodeDecodeError string

text \<open>
  The exceptions that occur in the module. \<open>NameError n\<close> is the lookup of a name
  \<open>n\<close> that nothing binds; \<open>BinasciiError\<close> is \<^verbatim>\<open>binascii.Error\<close>, raised by
  \<^verbatim>\<open>base64.b64decode\<close>; \<open>TypeError\<close> is raised by \<^verbatim>\<open>+=\<close> on a \<^verbatim>\<open>str\<close> and a
  value that is not one; \<open>Exception cls msg\<close> is any other exception below
  \<^verbatim>\<open>Exception\<close>, by class name and message (what the agent loop raises);
  \<open>KeyboardInterrupt\<close> and \<open>CancelledError\<close> derive from \<^verbatim>\<open>BaseException\<close> only.
\<close>

datatype exn =
    NameError string
  | BinasciiError
  | TypeError
  | StorageFailure storage_failure
  | Exception string string
  | KeyboardInterrupt
  | CancelledError

fun is_Exception :: "exn \<Rightarrow> bool" where
  "is_Exception KeyboardInterrupt = False"
| "is_Exception CancelledError = False"
| "is_Exception _ = True"

fun exn_str :: "exn \<Rightarrow> string" where
  "exn_str (NameError n) = ''name '' @ [CHR 0x27] @ n @ [CHR 0x27] @ '' is not defined''"
| "exn_str BinasciiError = ''Incorrect padding''"
| "exn_str TypeError = ''can only concatenate str (not \"Image\") to str''"
| "exn_str (StorageFailure (OSError m)) = m"
| "exn_str (StorageFailure (UnicodeDecodeError m)) = m"
| "exn_str (Exception cls m) = m"
| "exn_str KeyboardInterrupt = []"
| "exn_str CancelledError = []"

type_synonym 'a gen = "'a list \<times> exn option"

subsection \<open>Strings\<close>

text \<open>
  \<^verbatim>\<open>str.strip()\<close> removes leading and trailing whitespace. Of the code points below
  256, \<^verbatim>\<open>str.isspace\<close> holds for 9 to 13, 28 to 32, 133 and 160.
\<close>

definition py_isspace :: "char \<Rightarrow> bool" where
  "py_isspace c = (of_char c \<in> set [9, 10, 11, 12, 13, 28, 29, 30, 31, 32, 133, 160 :: nat])"

definition strip :: "string \<Rightarrow> string" where
  "strip s = rev (dropWhile py_isspace (rev (dropWhile py_isspace s)))"

text \<open>\<^verbatim>\<open>x or y\<close> where \<open>x\<close> is \<^verbatim>\<open>None\<close> or a \<^verbatim>\<open>str\<close>: \<open>x\<close> when it is truthy.\<close>

fun py_or :: "string option \<Rightarrow> string \<Rightarrow> string" where
  "py_or None d = d"
| "py_or (Some s) d = (if s = [] then d else s)"

text \<open>\<^verbatim>\<open>os.getenv(key, default)\<close> on the process environment.\<close>

definition getenv :: "(string \<rightharpoonup> string) \<Rightarrow> string \<Rightarrow> string \<Rightarrow> string" where
  "getenv env k d = (case env k of Some v \<Rightarrow> v | None \<Rightarrow> d)"

subsection \<open>The configuration directory\<close>

text \<open>
  The state of \<^verbatim>\<open>CONFIG_DIR\<close> (\<^verbatim>\<open>~/.anthropic\<close>): whether the directory exists, its
  regular files by name (the text \<^verbatim>\<open>read_text()\<close> returns and the permission bits),
  the permission bits a newly created file gets, and which operation on which file name
  fails, with what.
\<close>

datatype fs_op = Mkdir | Exists | ReadText | WriteText | Chmod

record stored_file =
  file_text :: string
  file_mode :: nat

record storage =
  config_dir_exists :: bool
  files :: "string \<rightharpoonup> stored_file"
  new_file_mode :: nat
  faults :: "fs_op \<Rightarrow> string \<Rightarrow> storage_failure option"

definition path_exists :: "storage \<Rightarrow> string \<Rightarrow> exn + bool" where
  "path_exists st filename =
     (case faults st Exists filename of
        Some f \<Rightarrow> Inl (StorageFailure f)
      | None \<Rightarrow> Inr (config_dir_exists st \<and> files st filename \<noteq> None))"

definition read_text :: "storage \<Rightarrow> string \<Rightarrow> exn + string" where
  "read_text st filename =
     (case faults st ReadText filename of
        Some f \<Rightarrow> Inl (StorageFailure f)
      | None \<Rightarrow>
          (case files st filename of
             None \<Rightarrow> Inl (StorageFailure (OSError ''No such file or directory''))
           | Some f \<Rightarrow> Inr (file_text f)))"




subsection \<open>load_from_storage and save_to_storage\<close>

text \<open>
  The body of the \<^verbatim>\<open>try\<close> of \<^verbatim>\<open>load_from_storage\<close> (lines 38 to 42): \<open>Inr (Some data)\<close>
  is \<^verbatim>\<open>return data\<close>, \<open>Inr None\<close> is falling out of the block.
\<close>

definition load_try :: "storage \<Rightarrow> string \<Rightarrow> exn + string option" where
  "load_try st filename =
     (case path_exists st filename of
        Inl e \<Rightarrow> Inl e
      | Inr False \<Rightarrow> Inr None
      | Inr True \<Rightarrow>
          (case read_text st filename of
             Inl e \<Rightarrow> Inl e
           | Inr t \<Rightarrow> (let data = strip t in if data \<noteq> [] then Inr (Some data) else Inr None)))"

text \<open>
  \<^verbatim>\<open>load_from_storage\<close> (lines 36 to 45): the result, and the lines printed.
  \<^verbatim>\<open>except Exception\<close> catches what derives from \<^verbatim>\<open>Exception\<close>; anything else
  leaves the function.
\<close>

definition load_from_storage :: "storage \<Rightarrow> string \<Rightarrow> (exn + string option) \<times> string list" where
  "load_from_storage st filename =
     (case load_try st filename of
        Inr (Some data) \<Rightarrow> (Inr (Some data), [])
      | Inr None \<Rightarrow> (Inr None, [])
      | Inl e \<Rightarrow>
          if is_Exception e
          then (Inr None, [''Debug: Error loading '' @ filename @ '': '' @ exn_str e])
          else (Inl e, []))"



text \<open>
  The initial values \<^verbatim>\<open>create_app\<close> gives the two text boxes (lines 111 and 114):
  \<^verbatim>\<open>load_from_storage("api_key") or os.getenv("ANTHROPIC_API_KEY", "")\<close> and
  \<^verbatim>\<open>load_from_storage("system_prompt") or ""\<close>.
\<close>

definition api_key_value :: "storage \<Rightarrow> (string \<rightharpoonup> string) \<Rightarrow> exn + string" where
  "api_key_value st env =
     (case fst (load_from_storage st ''api_key'') of
        Inl e \<Rightarrow> Inl e
      | Inr v \<Rightarrow> Inr (py_or v (getenv env ''ANTHROPIC_API_KEY'' [])))"

definition custom_system_prompt_value :: "storage \<Rightarrow> exn + string" where
  "custom_system_prompt_value st =
     (case fst (load_from_storage st ''system_prompt'') of
        Inl e \<Rightarrow> Inl e
      | Inr v \<Rightarrow> Inr (py_or v []))"

subsection \<open>The values that pass through chat\<close>

text \<open>
  An entry of \<^verbatim>\<open>history\<close> is a dictionary with the keys \<^verbatim>\<open>role\<close> and
  \<^verbatim>\<open>content\<close>; both values are strings (line 63 stores the user's message, line 96
  the string \<^verbatim>\<open>bot_response\<close>).
\<close>

record turn =
  role :: string
  content :: string

text \<open>\<^verbatim>\<open>TextBlock(type=..., text=...)\<close>, and an entry of \<^verbatim>\<open>messages\<close> (line 64).\<close>

datatype text_block = TextBlock (block_type: string) (block_text: string)

record message =
  message_role :: string
  message_content :: "text_block list"

datatype Sender = USER | BOT | TOOL

text \<open>
  Modelled from the spec: the class \<^verbatim>\<open>ToolResult\<close> of \<^verbatim>\<open>computer_use_demo.tools\<close>
  is not in the sources. The spec gives it an optional output, an optional error and an
  optional image; lines 74 to 79 read them as \<^verbatim>\<open>output\<close>, \<^verbatim>\<open>error\<close> and
  \<^verbatim>\<open>base64_image\<close>.
\<close>

datatype tool_result =
  ToolResult (result_output: "string option") (result_error: "string option")
    (result_base64_image: "string option")

text \<open>
  The value a callback receives as \<^verbatim>\<open>content\<close>: a \<^verbatim>\<open>str\<close>, a text block of either
  class, a tool-use block of either class (its name, and its input as \<^verbatim>\<open>str\<close> renders
  it), a tool result, or an object of any other class (by the name of the class).
\<close>

datatype content =
    PyStr string
  | PyBetaTextBlock text_block
  | PyTextBlock text_block
  | PyBetaToolUseBlock string string
  | PyToolUseBlock string string
  | PyToolResult tool_result
  | PyOther string

text \<open>
  What \<^verbatim>\<open>output_callback\<close> yields: a \<^verbatim>\<open>str\<close>, or \<^verbatim>\<open>gr.Image(value=...)\<close> holding the
  decoded bytes.
\<close>

datatype fragment = FText string | FImage string

subsection \<open>The names of the module\<close>

text \<open>
  The names the module binds at top level: by the imports of lines 5 to 24, and by the
  assignments and definitions of lines 26 to 125.
\<close>

definition module_names :: "string list" where
  "module_names =
     [''asyncio'', ''base64'', ''os'', ''datetime'', ''StrEnum'', ''partial'', ''PosixPath'',
      ''cast'', ''gr'', ''APIResponse'', ''TextBlock'', ''BetaMessage'', ''BetaTextBlock'',
      ''BetaToolUseBlock'', ''PROVIDER_TO_DEFAULT_MODEL_NAME'', ''APIProvider'',
      ''sampling_loop'', ''ToolResult'', ''CONFIG_DIR'', ''API_KEY_FILE'', ''WARNING_TEXT'',
      ''Sender'', ''load_from_storage'', ''save_to_storage'', ''validate_auth'', ''chat'',
      ''create_app'']"

text \<open>
  Reading a name of the module inside \<^verbatim>\<open>output_callback\<close>, for a name that is
  neither local nor built in. (The local names are \<^verbatim>\<open>sender\<close> and \<^verbatim>\<open>content\<close>,
  those of the enclosing \<^verbatim>\<open>chat\<close> are its parameters, \<^verbatim>\<open>messages\<close>,
  \<^verbatim>\<open>output_callback\<close>, \<^verbatim>\<open>bot_response\<close> and \<^verbatim>\<open>partial_response\<close>.) A name
  that the module does not bind raises \<^verbatim>\<open>NameError\<close>.
\<close>

definition lookup_name :: "string \<Rightarrow> exn + string" where
  "lookup_name n = (if n \<in> set module_names then Inr n else Inl (NameError n))"

subsection \<open>output_callback\<close>

text \<open>
  The branch for a tool result (lines 74 to 80). \<^verbatim>\<open>base64.b64decode\<close> belongs to
  Python's library and is a parameter: it gives the decoded bytes, or raises.
\<close>

definition tool_result_branch ::
    "(string \<Rightarrow> exn + string) \<Rightarrow> bool \<Rightarrow> tool_result \<Rightarrow> fragment gen" where
  "tool_result_branch b64decode hide_images r =
     (let out = (case result_output r of Some s \<Rightarrow> if s \<noteq> [] then [FText s] else [] | None \<Rightarrow> []);
          err = (case result_error r of
                   Some s \<Rightarrow> if s \<noteq> [] then [FText (''Error: '' @ s)] else []
                 | None \<Rightarrow> [])
      in case result_base64_image r of
           None \<Rightarrow> (out @ err, None)
         | Some img \<Rightarrow>
             if img \<noteq> [] \<and> \<not> hide_images
             then (case b64decode img of
                     Inl e \<Rightarrow> (out @ err, Some e)
                   | Inr bytes \<Rightarrow> (out @ err @ [FImage bytes], None))
             else (out @ err, None))"

text \<open>
  \<^verbatim>\<open>output_callback\<close> (lines 66 to 80), with \<^verbatim>\<open>hide_images\<close> of the enclosing
  \<^verbatim>\<open>chat\<close>. The test of line 71 builds the tuple
  \<^verbatim>\<open>(BetaToolUseBlock, ToolUseBlock)\<close> before \<^verbatim>\<open>isinstance\<close> is called, so it reads
  the name \<^verbatim>\<open>ToolUseBlock\<close> for every value that is neither a string nor a text
  block.
\<close>

definition output_callback ::
    "(string \<Rightarrow> exn + string) \<Rightarrow> bool \<Rightarrow> Sender \<Rightarrow> content \<Rightarrow> fragment gen" where
  "output_callback b64decode hide_images sender c =
     (case c of
        PyStr s \<Rightarrow> ([FText s], None)
      | PyBetaTextBlock b \<Rightarrow> ([FText (block_text b)], None)
      | PyTextBlock b \<Rightarrow> ([FText (block_text b)], None)
      | _ \<Rightarrow>
          (case lookup_name ''ToolUseBlock'' of
             Inl e \<Rightarrow> ([], Some e)
           | Inr _ \<Rightarrow>
               (case c of
                  PyBetaToolUseBlock n i \<Rightarrow>
                    ([FText (''Tool Use: '' @ n @ [CHR 0x0A] @ ''Input: '' @ i)], None)
                | PyToolUseBlock n i \<Rightarrow>
                    ([FText (''Tool Use: '' @ n @ [CHR 0x0A] @ ''Input: '' @ i)], None)
                | PyToolResult r \<Rightarrow> tool_result_branch b64decode hide_images r
                | _ \<Rightarrow> ([], None))))"

subsection \<open>The call of the agent loop\<close>

text \<open>The keyword arguments \<^verbatim>\<open>chat\<close> passes to \<^verbatim>\<open>sampling_loop\<close> besides the callbacks.\<close>

record loop_args =
  system_prompt_suffix :: string
  model :: string
  provider :: string
  messages :: "message list"
  api_key :: string
  only_n_most_recent_images :: nat

subsection \<open>chat\<close>

text \<open>
  The loop of lines 82 to 94 over the values of the stream: the snapshots it yields, and
  the final \<^verbatim>\<open>bot_response\<close> or the exception that leaves the loop. \<^verbatim>\<open>+=\<close> on the
  string \<^verbatim>\<open>bot_response\<close> and a value that is not a string raises \<^verbatim>\<open>TypeError\<close> before
  anything is yielded for that value.
\<close>

fun async_for :: "string \<Rightarrow> fragment list \<Rightarrow> exn option \<Rightarrow> string list \<times> (exn + string)" where
  "async_for bot_response [] None = ([], Inr bot_response)"
| "async_for bot_response [] (Some e) = ([], Inl e)"
| "async_for bot_response (FText s # rest) fin =
     (case async_for (bot_response @ s) rest fin of
        (snaps, r) \<Rightarrow> ((bot_response @ s) # snaps, r))"
| "async_for bot_response (FImage b # rest) fin = ([], Inl TypeError)"

text \<open>Line 64: every entry of the history as its role and one text block.\<close>

definition project :: "turn list \<Rightarrow> message list" where
  "project history =
     map (\<lambda>m. \<lparr>message_role = role m,
               message_content = [TextBlock ''text'' (content m)]\<rparr>) history"

text \<open>
  One run of \<^verbatim>\<open>chat\<close>: the list \<^verbatim>\<open>history\<close> as the run leaves it (the list is
  changed in place, so the caller sees it also when the run raises), the snapshots
  yielded, and the exception that ends the run, if one does.

  \<^verbatim>\<open>chat\<close> is an asynchronous generator, and Python's compiler accepts no
  \<^verbatim>\<open>return\<close> with a value in one: line 97, \<^verbatim>\<open>return history\<close>, is a
  \<^verbatim>\<open>SyntaxError\<close>, and the module as it stands does not compile. The model is of the
  code with that value removed: a run that no exception ends has no value, and the
  caller finds the history in the list it passed.
\<close>

record chat_run =
  history_after :: "turn list"
  yielded :: "string list"
  raised :: "exn option"

text \<open>
  The call of lines 83 to 92. \<^verbatim>\<open>sampling_loop\<close> is imported from a module that is
  not in the sources, so the function is a parameter \<open>loop\<close> of \<^verbatim>\<open>chat\<close>: it takes the
  keyword arguments and the two callbacks and gives the stream that line 83 iterates.
\<close>

type_synonym loop =
  "loop_args \<Rightarrow> (content \<Rightarrow> fragment gen) \<Rightarrow> (content \<Rightarrow> fragment gen) \<Rightarrow> fragment gen"

definition chat ::
    "loop \<Rightarrow> (string \<Rightarrow> exn + string) \<Rightarrow> string \<Rightarrow> turn list \<Rightarrow> string \<Rightarrow> string \<Rightarrow> string \<Rightarrow>
     string \<Rightarrow> nat \<Rightarrow> bool \<Rightarrow> chat_run" where
  "chat loop b64decode message history api_key_arg provider_arg model_arg custom_system_prompt
        only_n hide_images =
     (let history1 = history @ [\<lparr>role = ''user'', content = message\<rparr>];
          msgs = project history1;
          stream = loop
                     \<lparr>system_prompt_suffix = custom_system_prompt, model = model_arg,
                      provider = provider_arg, messages = msgs, api_key = api_key_arg,
                      only_n_most_recent_images = only_n\<rparr>
                     (output_callback b64decode hide_images BOT)
                     (output_callback b64decode hide_images TOOL)
      in case async_for [] (fst stream) (snd stream) of
           (snaps, Inl e) \<Rightarrow>
             \<lparr>history_after = history1, yielded = snaps, raised = Some e\<rparr>
         | (snaps, Inr bot_response) \<Rightarrow>
             \<lparr>history_after = history1 @ [\<lparr>role = ''assistant'', content = bot_response\<rparr>],
              yielded = snaps, raised = None\<rparr>)"

text \<open>
  The stream that line 83 of a run iterates: the result of the call of lines 83 to 92,
  made after lines 63 and 64.
\<close>

definition chat_stream ::
    "loop \<Rightarrow> (string \<Rightarrow> exn + string) \<Rightarrow> string \<Rightarrow> turn list \<Rightarrow> string \<Rightarrow> string \<Rightarrow> string \<Rightarrow>
     string \<Rightarrow> nat \<Rightarrow> bool \<Rightarrow> fragment gen" where
  "chat_stream loop b64decode message history api_key_arg provider_arg model_arg
        custom_system_prompt only_n hide_images =
     loop \<lparr>system_prompt_suffix = custom_system_prompt, model = model_arg,
           provider = provider_arg,
           messages = project (history @ [\<lparr>role = ''user'', content = message\<rparr>]),
           api_key = api_key_arg, only_n_most_recent_images = only_n\<rparr>
          (output_callback b64decode hide_images BOT)
          (output_callback b64decode hide_images TOOL)"

subsection \<open>Example inputs\<close>

text \<open>
  A decoder that raises for every payload. The examples give it the payload
  \<^verbatim>\<open>abc\<close>, which \<^verbatim>\<open>base64.b64decode\<close> refuses (incorrect padding), or use it
  where nothing is decoded.
\<close>

definition reject_all :: "string \<Rightarrow> exn + string" where
  "reject_all img = Inl BinasciiError"

text \<open>
  A decoder that accepts every payload and gives it back. The examples use it where
  nothing is decoded.
\<close>

definition accept_all :: "string \<Rightarrow> exn + string" where
  "accept_all img = Inr img"

text \<open>A loop whose stream is the given one, whatever it is called with.\<close>

definition streaming :: "fragment gen \<Rightarrow> loop" where
  "streaming s args output_cb tool_output_cb = s"

text \<open>
  A loop that takes given chunks, each for the callback \<^verbatim>\<open>output_callback\<close> or for
  \<^verbatim>\<open>tool_output_callback\<close>, hands them to the callbacks one after the other, yields
  every fragment a callback yields, and handles no exception: when a callback raises,
  the stream ends with its exception; after the last chunk the stream ends as given.
  It is one loop that \<^verbatim>\<open>chat\<close> can be given, not the \<^verbatim>\<open>sampling_loop\<close> of the
  repository.
\<close>

datatype channel = Output | ToolOutput

fun relay ::
    "(content \<Rightarrow> fragment gen) \<Rightarrow> (content \<Rightarrow> fragment gen) \<Rightarrow>
     (channel \<times> content) list \<Rightarrow> exn option \<Rightarrow> fragment gen" where
  "relay out_cb tool_cb [] fin = ([], fin)"
| "relay out_cb tool_cb ((ch, c) # rest) fin =
     (case (case ch of Output \<Rightarrow> out_cb c | ToolOutput \<Rightarrow> tool_cb c) of
        (frs, Some e) \<Rightarrow> (frs, Some e)
      | (frs, None) \<Rightarrow>
          (case relay out_cb tool_cb rest fin of (frs', r) \<Rightarrow> (frs @ frs', r)))"

definition forwarding :: "(channel \<times> content) list \<Rightarrow> exn option \<Rightarrow> loop" where
  "forwarding chunks fin args output_cb tool_output_cb = relay output_cb tool_output_cb chunks fin"

text \<open>
  A configuration directory with a stored key that cannot be read or written, and a
  stored system prompt that holds two blanks and a line feed.
\<close>

definition example_storage :: storage where
  "example_storage =
     \<lparr>config_dir_exists = True,
      files = [''api_key'' \<mapsto> \<lparr>file_text = '' sk-1 '' @ [CHR 0x0A], file_mode = 384\<rparr>,
               ''system_prompt'' \<mapsto> \<lparr>file_text = ''  '' @ [CHR 0x0A], file_mode = 420\<rparr>],
      new_file_mode = 420,
      faults = (\<lambda>op n. if n = ''api_key'' \<and> (op = ReadText \<or> op = WriteText)
                        then Some (OSError ''Permission denied'') else None)\<rparr>"

section \<open>Properties\<close>

subsection \<open>Auxiliary facts\<close>

lemma lookup_ToolUseBlock: "lookup_name ''ToolUseBlock'' = Inl (NameError ''ToolUseBlock'')"
  by (simp add: lookup_name_def module_names_def)

lemma strip_all_space:
  assumes "\<forall>c\<in>set s. py_isspace c"
  shows "strip s = []"
proof -
  from assms have h: "dropWhile py_isspace s = []" by simp
  have "strip s = rev (dropWhile py_isspace (rev []))" unfolding strip_def h ..
  then show ?thesis by simp
qed

lemma output_callback_text:
  "output_callback b h s (PyStr t) = ([FText t], None)"
  "output_callback b h s (PyBetaTextBlock tb) = ([FText (block_text tb)], None)"
  "output_callback b h s (PyTextBlock tb) = ([FText (block_text tb)], None)"
  by (simp_all add: output_callback_def)

lemma output_callback_other:
  "output_callback b h s (PyBetaToolUseBlock n i) = ([], Some (NameError ''ToolUseBlock''))"
  "output_callback b h s (PyToolUseBlock n i) = ([], Some (NameError ''ToolUseBlock''))"
  "output_callback b h s (PyToolResult r) = ([], Some (NameError ''ToolUseBlock''))"
  "output_callback b h s (PyOther cls) = ([], Some (NameError ''ToolUseBlock''))"
  by (simp_all add: output_callback_def lookup_ToolUseBlock)

lemma async_for_texts:
  "async_for b (map FText ts) fin =
     (map (\<lambda>k. b @ concat (take (Suc k) ts)) [0..<length ts],
      case fin of None \<Rightarrow> Inr (b @ concat ts) | Some e \<Rightarrow> Inl e)"
proof (induction ts arbitrary: b)
  case Nil
  then show ?case by (cases fin) simp_all
next
  case (Cons t ts)
  have "async_for b (map FText (t # ts)) fin =
          (case async_for (b @ t) (map FText ts) fin of (snaps, r) \<Rightarrow> ((b @ t) # snaps, r))"
    by simp
  also have "\<dots> = ((b @ t) # map (\<lambda>k. (b @ t) @ concat (take (Suc k) ts)) [0..<length ts],
                   case fin of None \<Rightarrow> Inr ((b @ t) @ concat ts) | Some e \<Rightarrow> Inl e)"
    by (simp add: Cons.IH)
  also have "\<dots> = (map (\<lambda>k. b @ concat (take (Suc k) (t # ts))) [0..<length (t # ts)],
                   case fin of None \<Rightarrow> Inr (b @ concat (t # ts)) | Some e \<Rightarrow> Inl e)"
    by (cases fin) (simp_all add: map_upt_Suc del: upt_Suc)
  finally show ?case .
qed

lemma async_for_returns:
  assumes "snd (async_for b frs fin) = Inr r"
  shows "fin = None \<and> (\<exists>ts. frs = map FText ts)"
  using assms
proof (induction b frs fin rule: async_for.induct)
  case (3 bot_response s rest fin)
  then have "snd (async_for (bot_response @ s) rest fin) = Inr r"
    by (simp split: prod.splits)
  with 3 obtain ts where "fin = None" "rest = map FText ts" by blast
  then have "FText s # rest = map FText (s # ts)" by simp
  then have "\<exists>ts. FText s # rest = map FText ts" ..
  with \<open>fin = None\<close> show ?case by (rule conjI)
qed simp_all

lemma async_for_loop_failure:
  "\<exists>e'. snd (async_for b frs (Some e)) = Inl e'"
proof (induction frs arbitrary: b)
  case Nil
  then show ?case by simp
next
  case (Cons f frs)
  show ?case
  proof (cases f)
    case (FText t)
    from Cons.IH [of "b @ t"] obtain e' where "snd (async_for (b @ t) frs (Some e)) = Inl e'" ..
    then show ?thesis by (cases "async_for (b @ t) frs (Some e)") (simp add: FText)
  next
    case (FImage i)
    then show ?thesis by simp
  qed
qed

lemma chat_unfold:
  "chat loop b64 message history k p m csp n hide =
     (case async_for [] (fst (chat_stream loop b64 message history k p m csp n hide))
             (snd (chat_stream loop b64 message history k p m csp n hide)) of
        (snaps, Inl e) \<Rightarrow>
          \<lparr>history_after = history @ [\<lparr>role = ''user'', content = message\<rparr>],
           yielded = snaps, raised = Some e\<rparr>
      | (snaps, Inr bot_response) \<Rightarrow>
          \<lparr>history_after = history @ [\<lparr>role = ''user'', content = message\<rparr>,
                                      \<lparr>role = ''assistant'', content = bot_response\<rparr>],
           yielded = snaps, raised = None\<rparr>)"
  by (simp add: chat_def chat_stream_def Let_def)

lemma chat_text_stream_ends:
  assumes "chat_stream loop b64 message history k p m csp n hide = (map FText ts, None)"
  shows "chat loop b64 message history k p m csp n hide =
           \<lparr>history_after = history @ [\<lparr>role = ''user'', content = message\<rparr>,
                                       \<lparr>role = ''assistant'', content = concat ts\<rparr>],
            yielded = map (\<lambda>k. concat (take (Suc k) ts)) [0..<length ts],
            raised = None\<rparr>"
  by (simp add: chat_unfold assms async_for_texts)

lemma chat_text_stream_raises:
  assumes "chat_stream loop b64 message history k p m csp n hide = (map FText ts, Some e)"
  shows "chat loop b64 message history k p m csp n hide =
           \<lparr>history_after = history @ [\<lparr>role = ''user'', content = message\<rparr>],
            yielded = map (\<lambda>k. concat (take (Suc k) ts)) [0..<length ts],
            raised = Some e\<rparr>"
  by (simp add: chat_unfold assms async_for_texts)

lemma chat_raises:
  assumes "raised (chat loop b64 message history k p m csp n hide) = Some e"
  shows "history_after (chat loop b64 message history k p m csp n hide)
           = history @ [\<lparr>role = ''user'', content = message\<rparr>]"
  using assms by (simp add: chat_unfold split: prod.splits sum.splits)

lemma chat_stream_failure:
  assumes "snd (chat_stream loop b64 message history k p m csp n hide) = Some e"
  shows "\<exists>e'. raised (chat loop b64 message history k p m csp n hide) = Some e'"
proof -
  let ?S = "chat_stream loop b64 message history k p m csp n hide"
  from async_for_loop_failure [of "[]" "fst ?S" e]
  obtain e' where "snd (async_for [] (fst ?S) (snd ?S)) = Inl e'" using assms by auto
  then have "raised (chat loop b64 message history k p m csp n hide) = Some e'"
    by (cases "async_for [] (fst ?S) (snd ?S)") (simp add: chat_unfold)
  then show ?thesis ..
qed

lemma chat_ends_normally:
  assumes "raised (chat loop b64 message history k p m csp n hide) = None"
  shows "\<exists>ts. chat_stream loop b64 message history k p m csp n hide = (map FText ts, None)"
proof -
  let ?S = "chat_stream loop b64 message history k p m csp n hide"
  obtain snaps r where a: "async_for [] (fst ?S) (snd ?S) = (snaps, r)"
    by (cases "async_for [] (fst ?S) (snd ?S)")
  with assms obtain b where "r = Inr b" by (cases r) (simp_all add: chat_unfold)
  with a have "snd (async_for [] (fst ?S) (snd ?S)) = Inr b" by simp
  from async_for_returns [OF this] obtain ts where "snd ?S = None" "fst ?S = map FText ts"
    by blast
  then have "?S = (map FText ts, None)" by (simp add: prod_eq_iff)
  then show ?thesis ..
qed

text \<open>The definitions that evaluate a run on a given loop.\<close>

lemmas chat_eval = chat_def chat_stream_def streaming_def forwarding_def
  output_callback_def lookup_name_def module_names_def project_def Let_def reject_all_def

text \<open>
  The loop \<open>forwarding\<close> on text chunks followed by a tool result: the stream holds the
  texts and ends with the \<^verbatim>\<open>NameError\<close> of the callback, whatever follows.
\<close>

lemma relay_texts_then_tool_result:
  "relay (output_callback b64 hide BOT) (output_callback b64 hide TOOL)
     (map (\<lambda>t. (Output, PyStr t)) ts @ (ch, PyToolResult r) # rest) fin
   = (map FText ts, Some (NameError ''ToolUseBlock''))"
proof (induction ts)
  case Nil
  show ?case by (cases ch) (simp_all add: output_callback_other)
next
  case (Cons t ts)
  then show ?case by (simp add: output_callback_text)
qed

text \<open>
  What the branch of lines 74 to 80 yields for a tool result with all three fields, when
  the image decodes.
\<close>

lemma tool_result_branch_fragments:
  assumes "b64decode img = Inr bytes"
  shows "tool_result_branch b64decode hide (ToolResult (Some out) (Some err) (Some img)) =
     ((if out \<noteq> [] then [FText out] else []) @
      (if err \<noteq> [] then [FText (''Error: '' @ err)] else []) @
      (if img \<noteq> [] \<and> \<not> hide then [FImage bytes] else []), None)"
  using assms by (simp add: tool_result_branch_def)



subsection \<open>Persistence\<close>



text \<open>
  C10. A stored file whose text is empty or consists of whitespace only is read as
  \<^verbatim>\<open>None\<close>, as the same directory without the file is; the two text boxes of
  \<^verbatim>\<open>create_app\<close> then get the value they get when the file does not exist.
\<close>

theorem whitespace_only_file_reads_as_absent:
  assumes "files st filename = Some f" and "\<forall>c\<in>set (file_text f). py_isspace c"
  shows "fst (load_from_storage st filename) = Inr None \<and>
         fst (load_from_storage (st\<lparr>files := (files st)(filename := None)\<rparr>) filename) = Inr None \<and>
         (filename = ''api_key'' \<longrightarrow>
            api_key_value st env = Inr (getenv env ''ANTHROPIC_API_KEY'' []) \<and>
            api_key_value (st\<lparr>files := (files st)(filename := None)\<rparr>) env = api_key_value st env) \<and>
         (filename = ''system_prompt'' \<longrightarrow>
            custom_system_prompt_value st = Inr [] \<and>
            custom_system_prompt_value (st\<lparr>files := (files st)(filename := None)\<rparr>)
              = custom_system_prompt_value st)"
proof -
  have s: "strip (file_text f) = []" using assms(2) by (rule strip_all_space)
  have 1: "fst (load_from_storage st filename) = Inr None"
    using assms(1) s
    by (auto simp: load_from_storage_def load_try_def path_exists_def read_text_def Let_def
        split: sum.splits option.splits bool.splits)
  have 2: "fst (load_from_storage (st\<lparr>files := (files st)(filename := None)\<rparr>) filename) = Inr None"
    by (auto simp: load_from_storage_def load_try_def path_exists_def read_text_def Let_def
        split: sum.splits option.splits bool.splits)
  show ?thesis using 1 2
    by (auto simp: api_key_value_def custom_system_prompt_value_def)
qed

text \<open>The stored system prompt of \<open>example_storage\<close> is two blanks and a line feed.\<close>

theorem whitespace_only_file_reads_as_absent_witness:
  "fst (load_from_storage example_storage ''system_prompt'') = Inr None \<and>
   custom_system_prompt_value example_storage = Inr []"
proof -
  have f: "files example_storage ''system_prompt''
             = Some \<lparr>file_text = ''  '' @ [CHR 0x0A], file_mode = 420\<rparr>"
    by (simp add: example_storage_def)
  have w: "\<forall>c\<in>set (file_text \<lparr>file_text = ''  '' @ [CHR 0x0A], file_mode = 420\<rparr>). py_isspace c"
    by (simp add: py_isspace_def)
  from whitespace_only_file_reads_as_absent [OF f w, of Map.empty] show ?thesis by simp
qed

subsection \<open>The history\<close>

text \<open>
  C1, as the code has it. When the stream of the agent loop yields strings and ends
  normally, \<^verbatim>\<open>chat\<close> appends one assistant turn whose content is the accumulated
  \<^verbatim>\<open>bot_response\<close>, the last snapshot, and no exception ends the run. When the stream
  yields strings and then ends with an exception, that exception ends the run: nothing
  is appended after the user turn, and the snapshots are those of the strings, with
  nothing added for the failure. Whatever a stream that ends with an exception yields,
  the run ends with an exception and only the user turn is appended.
\<close>

theorem chat_commits_only_on_normal_completion:
  "(chat_stream loop b64 message history k p m csp n hide = (map FText ts, None) \<longrightarrow>
      history_after (chat loop b64 message history k p m csp n hide)
        = history @ [\<lparr>role = ''user'', content = message\<rparr>,
                     \<lparr>role = ''assistant'', content = concat ts\<rparr>] \<and>
      raised (chat loop b64 message history k p m csp n hide) = None \<and>
      yielded (chat loop b64 message history k p m csp n hide)
        = map (\<lambda>i. concat (take (Suc i) ts)) [0..<length ts] \<and>
      (ts \<noteq> [] \<longrightarrow> last (yielded (chat loop b64 message history k p m csp n hide)) = concat ts)) \<and>
   (chat_stream loop b64 message history k p m csp n hide = (map FText ts, Some e) \<longrightarrow>
      raised (chat loop b64 message history k p m csp n hide) = Some e \<and>
      history_after (chat loop b64 message history k p m csp n hide)
        = history @ [\<lparr>role = ''user'', content = message\<rparr>] \<and>
      yielded (chat loop b64 message history k p m csp n hide)
        = map (\<lambda>i. concat (take (Suc i) ts)) [0..<length ts]) \<and>
   (snd (chat_stream loop b64 message history k p m csp n hide) = Some e \<longrightarrow>
      raised (chat loop b64 message history k p m csp n hide) \<noteq> None \<and>
      history_after (chat loop b64 message history k p m csp n hide)
        = history @ [\<lparr>role = ''user'', content = message\<rparr>])"
proof (intro conjI impI)
  assume a: "chat_stream loop b64 message history k p m csp n hide = (map FText ts, None)"
  note r = chat_text_stream_ends [OF a]
  show "history_after (chat loop b64 message history k p m csp n hide)
        = history @ [\<lparr>role = ''user'', content = message\<rparr>,
                     \<lparr>role = ''assistant'', content = concat ts\<rparr>]"
    by (simp add: r)
  show "raised (chat loop b64 message history k p m csp n hide) = None"
    by (simp add: r)
  show "yielded (chat loop b64 message history k p m csp n hide)
        = map (\<lambda>i. concat (take (Suc i) ts)) [0..<length ts]"
    by (simp add: r)
  assume "ts \<noteq> []"
  then show "last (yielded (chat loop b64 message history k p m csp n hide)) = concat ts"
    by (simp add: r last_map del: upt_Suc)
next
  assume a: "chat_stream loop b64 message history k p m csp n hide = (map FText ts, Some e)"
  note r = chat_text_stream_raises [OF a]
  show "raised (chat loop b64 message history k p m csp n hide) = Some e"
    by (simp add: r)
  show "history_after (chat loop b64 message history k p m csp n hide)
        = history @ [\<lparr>role = ''user'', content = message\<rparr>]"
    by (simp add: r)
  show "yielded (chat loop b64 message history k p m csp n hide)
        = map (\<lambda>i. concat (take (Suc i) ts)) [0..<length ts]"
    by (simp add: r)
next
  assume a: "snd (chat_stream loop b64 message history k p m csp n hide) = Some e"
  from chat_stream_failure [OF a]
  obtain e' where e': "raised (chat loop b64 message history k p m csp n hide) = Some e'" ..
  then show "raised (chat loop b64 message history k p m csp n hide) \<noteq> None" by simp
  from e' show "history_after (chat loop b64 message history k p m csp n hide)
        = history @ [\<lparr>role = ''user'', content = message\<rparr>]"
    by (rule chat_raises)
qed

text \<open>A run that ends normally, and a run whose loop fails after one fragment.\<close>

theorem chat_commits_only_on_normal_completion_witness:
  "history_after (chat (streaming ([FText ''Here is '', FText ''the screenshot.''], None))
       reject_all ''take a screenshot'' [] ''key'' ''anthropic'' ''model'' [] 10 False)
     = [\<lparr>role = ''user'', content = ''take a screenshot''\<rparr>,
        \<lparr>role = ''assistant'', content = ''Here is the screenshot.''\<rparr>] \<and>
   raised (chat (streaming ([FText ''Working on it...''],
                            Some (Exception ''APIError'' ''overloaded'')))
       reject_all ''take a screenshot'' [] ''key'' ''anthropic'' ''model'' [] 10 False)
     = Some (Exception ''APIError'' ''overloaded'') \<and>
   history_after (chat (streaming ([FText ''Working on it...''],
                                   Some (Exception ''APIError'' ''overloaded'')))
       reject_all ''take a screenshot'' [] ''key'' ''anthropic'' ''model'' [] 10 False)
     = [\<lparr>role = ''user'', content = ''take a screenshot''\<rparr>]"
proof -
  let ?ok = "streaming ([FText ''Here is '', FText ''the screenshot.''], None)"
  let ?bad = "streaming ([FText ''Working on it...''], Some (Exception ''APIError'' ''overloaded''))"
  have a: "chat_stream ?ok reject_all ''take a screenshot'' [] ''key'' ''anthropic'' ''model'' []
             10 False = (map FText [''Here is '', ''the screenshot.''], None)"
    by (simp add: chat_stream_def streaming_def)
  have b: "chat_stream ?bad reject_all ''take a screenshot'' [] ''key'' ''anthropic''
             ''model'' [] 10 False
           = (map FText [''Working on it...''], Some (Exception ''APIError'' ''overloaded''))"
    by (simp add: chat_stream_def streaming_def)
  from a chat_commits_only_on_normal_completion
         [of ?ok reject_all "''take a screenshot''" "[]" "''key''" "''anthropic''" "''model''"
             "[]" 10 False "[''Here is '', ''the screenshot.'']"]
  have 1: "history_after (chat ?ok reject_all ''take a screenshot'' [] ''key'' ''anthropic''
                            ''model'' [] 10 False)
     = [\<lparr>role = ''user'', content = ''take a screenshot''\<rparr>,
        \<lparr>role = ''assistant'', content = ''Here is the screenshot.''\<rparr>]"
    by simp
  from b chat_commits_only_on_normal_completion
         [of ?bad reject_all "''take a screenshot''" "[]" "''key''" "''anthropic''" "''model''"
             "[]" 10 False "[''Working on it...'']" "Exception ''APIError'' ''overloaded''"]
  have 2: "raised (chat ?bad reject_all ''take a screenshot'' [] ''key'' ''anthropic''
                     ''model'' [] 10 False) = Some (Exception ''APIError'' ''overloaded'')"
    and 3: "history_after (chat ?bad reject_all ''take a screenshot'' [] ''key'' ''anthropic''
                            ''model'' [] 10 False)
     = [\<lparr>role = ''user'', content = ''take a screenshot''\<rparr>]"
    by simp_all
  from 1 2 3 show ?thesis by simp
qed

text \<open>
  C1 as stated fails: the loop yields \<^verbatim>\<open>Working on it...\<close> and then raises. The
  history holds the user turn only; the fragment was shown as a snapshot but is not
  committed, nothing is added for the failure, and the exception leaves \<^verbatim>\<open>chat\<close>.
\<close>

theorem chat_loop_failure_commits_nothing:
  "chat (streaming ([FText ''Working on it...''], Some (Exception ''APIError'' ''overloaded'')))
     reject_all ''take a screenshot'' [] ''key'' ''anthropic'' ''model'' [] 10 False
   = \<lparr>history_after = [\<lparr>role = ''user'', content = ''take a screenshot''\<rparr>],
      yielded = [''Working on it...''],
      raised = Some (Exception ''APIError'' ''overloaded'')\<rparr>"
  by (simp add: chat_eval)

text \<open>
  C2, as the code has it. A run that no exception ends leaves the history two entries
  longer: the old entries, the user turn with the message, and an assistant turn whose
  content is the concatenation, in order, of the strings of the stream. A run that an
  exception ends leaves it one entry longer: the old entries and the user turn.
\<close>

theorem history_grows_by_two_when_chat_ends_normally:
  "(raised (chat loop b64 message history k p m csp n hide) = None \<longrightarrow>
      length (history_after (chat loop b64 message history k p m csp n hide))
        = length history + 2 \<and>
      (\<exists>ts. fst (chat_stream loop b64 message history k p m csp n hide) = map FText ts \<and>
            history_after (chat loop b64 message history k p m csp n hide)
              = history @ [\<lparr>role = ''user'', content = message\<rparr>,
                           \<lparr>role = ''assistant'', content = concat ts\<rparr>])) \<and>
   (raised (chat loop b64 message history k p m csp n hide) = Some e \<longrightarrow>
      length (history_after (chat loop b64 message history k p m csp n hide))
        = length history + 1 \<and>
      history_after (chat loop b64 message history k p m csp n hide)
        = history @ [\<lparr>role = ''user'', content = message\<rparr>])"
proof (intro conjI impI)
  assume a: "raised (chat loop b64 message history k p m csp n hide) = Some e"
  show "history_after (chat loop b64 message history k p m csp n hide)
        = history @ [\<lparr>role = ''user'', content = message\<rparr>]"
    by (rule chat_raises [OF a])
  then show "length (history_after (chat loop b64 message history k p m csp n hide))
        = length history + 1"
    by simp
next
  assume a: "raised (chat loop b64 message history k p m csp n hide) = None"
  from chat_ends_normally [OF a] obtain ts
    where s: "chat_stream loop b64 message history k p m csp n hide = (map FText ts, None)" ..
  note r = chat_text_stream_ends [OF s]
  show "length (history_after (chat loop b64 message history k p m csp n hide))
        = length history + 2"
    by (simp add: r)
  have "fst (chat_stream loop b64 message history k p m csp n hide) = map FText ts \<and>
        history_after (chat loop b64 message history k p m csp n hide)
          = history @ [\<lparr>role = ''user'', content = message\<rparr>,
                       \<lparr>role = ''assistant'', content = concat ts\<rparr>]"
    by (simp add: s r)
  then show "\<exists>ts. fst (chat_stream loop b64 message history k p m csp n hide) = map FText ts \<and>
            history_after (chat loop b64 message history k p m csp n hide)
              = history @ [\<lparr>role = ''user'', content = message\<rparr>,
                           \<lparr>role = ''assistant'', content = concat ts\<rparr>]" ..
qed

text \<open>A run on a history of one turn that ends normally, and one that raises.\<close>

theorem history_grows_by_two_when_chat_ends_normally_witness:
  "length (history_after (chat (streaming ([FText ''H'', FText ''i!''], None))
            reject_all ''again'' [\<lparr>role = ''user'', content = ''hello''\<rparr>] ''key'' ''anthropic''
            ''model'' [] 10 False))
     = length [\<lparr>role = ''user'', content = ''hello''\<rparr>] + 2 \<and>
   history_after (chat (streaming ([FText ''H''], Some (Exception ''APIError'' ''overloaded'')))
            reject_all ''again'' [\<lparr>role = ''user'', content = ''hello''\<rparr>] ''key'' ''anthropic''
            ''model'' [] 10 False)
     = [\<lparr>role = ''user'', content = ''hello''\<rparr>, \<lparr>role = ''user'', content = ''again''\<rparr>]"
proof -
  let ?ok = "streaming ([FText ''H'', FText ''i!''], None)"
  let ?bad = "streaming ([FText ''H''], Some (Exception ''APIError'' ''overloaded''))"
  have a: "raised (chat ?ok reject_all ''again'' [\<lparr>role = ''user'', content = ''hello''\<rparr>]
                     ''key'' ''anthropic'' ''model'' [] 10 False) = None"
    by (simp add: chat_eval)
  have b: "raised (chat ?bad reject_all ''again'' [\<lparr>role = ''user'', content = ''hello''\<rparr>]
                     ''key'' ''anthropic'' ''model'' [] 10 False)
       = Some (Exception ''APIError'' ''overloaded'')"
    by (simp add: chat_eval)
  from a history_grows_by_two_when_chat_ends_normally
    [of ?ok reject_all "''again''" "[\<lparr>role = ''user'', content = ''hello''\<rparr>]" "''key''"
        "''anthropic''" "''model''" "[]" 10 False]
  have 1: "length (history_after (chat ?ok reject_all ''again''
              [\<lparr>role = ''user'', content = ''hello''\<rparr>] ''key'' ''anthropic'' ''model'' [] 10 False))
     = length [\<lparr>role = ''user'', content = ''hello''\<rparr>] + 2"
    by blast
  from b history_grows_by_two_when_chat_ends_normally
    [of ?bad reject_all "''again''" "[\<lparr>role = ''user'', content = ''hello''\<rparr>]" "''key''"
        "''anthropic''" "''model''" "[]" 10 False "Exception ''APIError'' ''overloaded''"]
  have 2: "history_after (chat ?bad reject_all ''again''
              [\<lparr>role = ''user'', content = ''hello''\<rparr>] ''key'' ''anthropic'' ''model'' [] 10 False)
     = [\<lparr>role = ''user'', content = ''hello''\<rparr>] @ [\<lparr>role = ''user'', content = ''again''\<rparr>]"
    by blast
  from 1 2 show ?thesis by simp
qed

text \<open>
  C2 as stated fails: on a history of two turns a run whose loop fails leaves three
  turns, not four.
\<close>

theorem history_grows_by_one_when_loop_fails:
  "length (history_after (chat (streaming ([FText ''H''],
                                           Some (Exception ''APIError'' ''overloaded'')))
            reject_all ''again''
            [\<lparr>role = ''user'', content = ''hello''\<rparr>, \<lparr>role = ''assistant'', content = ''Hi!''\<rparr>]
            ''key'' ''anthropic'' ''model'' [] 10 False)) = 3"
  by (simp add: chat_eval)

text \<open>
  C8. \<^verbatim>\<open>chat\<close> appends the user turn before it calls the agent loop, and calls the
  loop with the projection of the history that already holds this turn. The run depends
  on the loop only through the loop's result on these arguments; a loop that reports
  something about its arguments reports it about these; the projection keeps the order
  and gives every turn its role and its content as one text block, the new user turn
  last; and the history of the caller holds the old turns and the user turn whatever
  the loop does afterwards.
\<close>

theorem chat_passes_projected_history:
  "(loop \<lparr>system_prompt_suffix = csp, model = m, provider = p,
          messages = project (history @ [\<lparr>role = ''user'', content = message\<rparr>]),
          api_key = k, only_n_most_recent_images = n\<rparr>
         (output_callback b64 hide BOT) (output_callback b64 hide TOOL)
    = loop' \<lparr>system_prompt_suffix = csp, model = m, provider = p,
          messages = project (history @ [\<lparr>role = ''user'', content = message\<rparr>]),
          api_key = k, only_n_most_recent_images = n\<rparr>
         (output_callback b64 hide BOT) (output_callback b64 hide TOOL)
    \<longrightarrow> chat loop b64 message history k p m csp n hide
        = chat loop' b64 message history k p m csp n hide) \<and>
   yielded (chat (\<lambda>args out_cb tool_cb. ([FText (observe args)], None)) b64 message history
              k p m csp n hide)
     = [observe \<lparr>system_prompt_suffix = csp, model = m, provider = p,
          messages = project (history @ [\<lparr>role = ''user'', content = message\<rparr>]),
          api_key = k, only_n_most_recent_images = n\<rparr>] \<and>
   project (history @ [\<lparr>role = ''user'', content = message\<rparr>])
     = map (\<lambda>t. \<lparr>message_role = role t, message_content = [TextBlock ''text'' (content t)]\<rparr>)
         history
       @ [\<lparr>message_role = ''user'', message_content = [TextBlock ''text'' message]\<rparr>] \<and>
   take (Suc (length history)) (history_after (chat loop b64 message history k p m csp n hide))
     = history @ [\<lparr>role = ''user'', content = message\<rparr>]"
proof (intro conjI impI)
  assume "loop \<lparr>system_prompt_suffix = csp, model = m, provider = p,
          messages = project (history @ [\<lparr>role = ''user'', content = message\<rparr>]),
          api_key = k, only_n_most_recent_images = n\<rparr>
         (output_callback b64 hide BOT) (output_callback b64 hide TOOL)
    = loop' \<lparr>system_prompt_suffix = csp, model = m, provider = p,
          messages = project (history @ [\<lparr>role = ''user'', content = message\<rparr>]),
          api_key = k, only_n_most_recent_images = n\<rparr>
         (output_callback b64 hide BOT) (output_callback b64 hide TOOL)"
  then show "chat loop b64 message history k p m csp n hide
        = chat loop' b64 message history k p m csp n hide"
    by (simp add: chat_def Let_def)
next
  show "yielded (chat (\<lambda>args out_cb tool_cb. ([FText (observe args)], None)) b64 message history
              k p m csp n hide)
     = [observe \<lparr>system_prompt_suffix = csp, model = m, provider = p,
          messages = project (history @ [\<lparr>role = ''user'', content = message\<rparr>]),
          api_key = k, only_n_most_recent_images = n\<rparr>]"
    by (simp add: chat_def Let_def)
next
  show "project (history @ [\<lparr>role = ''user'', content = message\<rparr>])
     = map (\<lambda>t. \<lparr>message_role = role t, message_content = [TextBlock ''text'' (content t)]\<rparr>)
         history
       @ [\<lparr>message_role = ''user'', message_content = [TextBlock ''text'' message]\<rparr>]"
    by (simp add: project_def)
next
  show "take (Suc (length history)) (history_after (chat loop b64 message history k p m csp n hide))
     = history @ [\<lparr>role = ''user'', content = message\<rparr>]"
    by (simp add: chat_unfold split: prod.splits sum.splits)
qed

text \<open>
  A loop that answers only when it is given exactly the projected user turn runs like
  one that always answers.
\<close>

theorem chat_passes_projected_history_witness:
  "chat (forwarding [(Output, PyStr ''Hi!'')] None) reject_all ''hello'' []
      ''key'' ''anthropic'' ''model'' [] 10 False
   = chat (\<lambda>args.
            if messages args
                 = [\<lparr>message_role = ''user'', message_content = [TextBlock ''text'' ''hello'']\<rparr>]
            then forwarding [(Output, PyStr ''Hi!'')] None args
            else streaming ([], Some (Exception ''ValueError'' ''unexpected messages'')) args)
       reject_all ''hello'' [] ''key'' ''anthropic'' ''model'' [] 10 False \<and>
   take (Suc (length ([] :: turn list)))
     (history_after (chat (forwarding [(Output, PyStr ''Hi!'')] None) reject_all
        ''hello'' [] ''key'' ''anthropic'' ''model'' [] 10 False))
   = [\<lparr>role = ''user'', content = ''hello''\<rparr>]"
proof -
  let ?loop = "forwarding [(Output, PyStr ''Hi!'')] None"
  let ?loop' = "\<lambda>args.
            if messages args
                 = [\<lparr>message_role = ''user'', message_content = [TextBlock ''text'' ''hello'']\<rparr>]
            then forwarding [(Output, PyStr ''Hi!'')] None args
            else streaming ([], Some (Exception ''ValueError'' ''unexpected messages'')) args"
  have h: "?loop \<lparr>system_prompt_suffix = [], model = ''model'', provider = ''anthropic'',
          messages = project ([] @ [\<lparr>role = ''user'', content = ''hello''\<rparr>]),
          api_key = ''key'', only_n_most_recent_images = 10\<rparr>
         (output_callback reject_all False BOT) (output_callback reject_all False TOOL)
      = ?loop' \<lparr>system_prompt_suffix = [], model = ''model'', provider = ''anthropic'',
          messages = project ([] @ [\<lparr>role = ''user'', content = ''hello''\<rparr>]),
          api_key = ''key'', only_n_most_recent_images = 10\<rparr>
         (output_callback reject_all False BOT) (output_callback reject_all False TOOL)"
    by (simp add: project_def)
  note t = chat_passes_projected_history
    [where loop = ?loop and loop' = ?loop' and history = "[]" and message = "''hello''"
       and k = "''key''" and p = "''anthropic''" and m = "''model''" and csp = "[]" and n = 10
       and ?b64.0 = reject_all and hide = False and observe = "\<lambda>args. []"]
  from t h have 1: "chat ?loop reject_all ''hello'' [] ''key'' ''anthropic'' ''model'' [] 10 False
      = chat ?loop' reject_all ''hello'' [] ''key'' ''anthropic'' ''model'' [] 10 False"
    by blast
  from t have 2: "take (Suc (length ([] :: turn list)))
     (history_after (chat ?loop reject_all ''hello'' [] ''key'' ''anthropic'' ''model'' [] 10 False))
       = [] @ [\<lparr>role = ''user'', content = ''hello''\<rparr>]"
    by blast
  from 1 2 show ?thesis by simp
qed

subsection \<open>What a chunk becomes\<close>

text \<open>
  C3 does not hold of the code. The claim: a tool result gives up to three fragments,
  its output, then its error marked as one, then its image unless images are hidden.
  The branch of lines 74 to 80 does that (\<open>tool_result_branch_fragments\<close>), but no
  tool result reaches it: the test of line 71 reads \<^verbatim>\<open>ToolUseBlock\<close>, a name the
  module never imports, so every tool result ends the callback with
  \<^verbatim>\<open>NameError\<close> and no fragment.
\<close>

theorem tool_result_never_reaches_its_branch:
  "output_callback b64decode hide_images sender (PyToolResult r)
     = ([], Some (NameError ''ToolUseBlock''))"
  by (simp add: output_callback_def lookup_ToolUseBlock)

text \<open>A tool result whose only field is the output \<^verbatim>\<open>ok\<close>.\<close>

theorem tool_result_never_reaches_its_branch_witness:
  "output_callback accept_all False TOOL (PyToolResult (ToolResult (Some ''ok'') None None))
     = ([], Some (NameError ''ToolUseBlock''))"
  by (rule tool_result_never_reaches_its_branch)

text \<open>
  C4, as the code has it. The code has no \<^verbatim>\<open>UnsupportedChunkError\<close>: a value of an
  unrecognized class yields no fragment, no value of any class makes the callback end
  with that error, and a string or a text block never makes it raise.
\<close>

theorem unrecognized_chunk_yields_nothing:
  "fst (output_callback b64decode hide_images sender (PyOther cls)) = [] \<and>
   snd (output_callback b64decode hide_images sender c)
     \<noteq> Some (Exception ''UnsupportedChunkError'' msg) \<and>
   snd (output_callback b64decode hide_images sender (PyStr s)) = None \<and>
   snd (output_callback b64decode hide_images sender (PyTextBlock tb)) = None \<and>
   snd (output_callback b64decode hide_images sender (PyBetaTextBlock tb)) = None"
proof -
  have "snd (output_callback b64decode hide_images sender c)
     \<noteq> Some (Exception ''UnsupportedChunkError'' msg)"
    by (cases c) (simp_all add: output_callback_text output_callback_other)
  then show ?thesis
    by (simp add: output_callback_text output_callback_other)
qed

text \<open>An \<^verbatim>\<open>int\<close> as the chunk, and a string.\<close>

theorem unrecognized_chunk_yields_nothing_witness:
  "fst (output_callback reject_all False BOT (PyOther ''int'')) = [] \<and>
   snd (output_callback reject_all False BOT (PyOther ''int''))
     \<noteq> Some (Exception ''UnsupportedChunkError'' ''int'') \<and>
   snd (output_callback reject_all False BOT (PyStr ''text'')) = None"
  using unrecognized_chunk_yields_nothing
    [of reject_all False BOT "''int''" "PyOther ''int''" "''int''" "''text''"]
  by simp

text \<open>
  C4 as stated fails: for an \<^verbatim>\<open>int\<close> the callback ends with \<^verbatim>\<open>NameError\<close>, not
  with \<^verbatim>\<open>UnsupportedChunkError\<close>, and it raises also for a chunk of a recognized
  kind, a tool-use block.
\<close>

theorem unrecognized_chunk_raises_NameError:
  "output_callback reject_all False BOT (PyOther ''int'')
     = ([], Some (NameError ''ToolUseBlock'')) \<and>
   output_callback reject_all False BOT (PyBetaToolUseBlock ''screenshot'' ''{}'')
     = ([], Some (NameError ''ToolUseBlock''))"
  by (simp add: output_callback_def lookup_name_def module_names_def)

text \<open>
  C5, as the code has it. A string, and a text block of either class, yields exactly one
  fragment, its body, whether or not the body is empty; a loop that hands the callback
  one string makes \<^verbatim>\<open>chat\<close> yield one snapshot.
\<close>

theorem text_chunk_yields_its_body:
  "output_callback b64decode hide_images sender (PyStr body) = ([FText body], None) \<and>
   output_callback b64decode hide_images sender (PyTextBlock (TextBlock ty body))
     = ([FText body], None) \<and>
   output_callback b64decode hide_images sender (PyBetaTextBlock (TextBlock ty body))
     = ([FText body], None) \<and>
   yielded (chat (\<lambda>args out_cb tool_cb. out_cb (PyStr body)) b64decode message history k p m
              csp n hide_images) = [body]"
  by (simp add: output_callback_text chat_def Let_def)

text \<open>A text chunk with a body.\<close>

theorem text_chunk_yields_its_body_witness:
  "output_callback reject_all True BOT (PyStr ''Here is the screenshot.'')
     = ([FText ''Here is the screenshot.''], None)"
  using text_chunk_yields_its_body [of reject_all True BOT "''Here is the screenshot.''"]
  by simp

text \<open>
  C5 as stated fails: the empty string yields one fragment, the empty string, and the
  run yields one snapshot for it.
\<close>

theorem empty_text_chunk_yields_a_fragment:
  "output_callback reject_all False BOT (PyStr []) = ([FText []], None) \<and>
   yielded (chat (\<lambda>args out_cb tool_cb. out_cb (PyStr [])) reject_all ''hi'' []
              ''key'' ''anthropic'' ''model'' [] 10 False) = [[]]"
  by (simp add: chat_eval)

subsection \<open>The stream\<close>

text \<open>
  C6 does not hold of the code. The claim: every fragment of every chunk of a run gets
  its snapshot, none is dropped. Lines 93 and 94 yield one snapshot for every string
  of the stream, but a tool result never becomes a fragment: the callback raises the
  \<^verbatim>\<open>NameError\<close> of line 71 (see C3), and neither it nor \<^verbatim>\<open>chat\<close> has a
  handler. With a loop that forwards what the callbacks yield, text chunks followed by a
  tool result give the snapshots of the texts only: the run ends with the
  \<^verbatim>\<open>NameError\<close>, the user turn is all that is appended, and the tool result and every
  chunk after it get no snapshot.
\<close>

theorem tool_result_and_later_chunks_get_no_snapshot:
  "chat (forwarding (map (\<lambda>t. (Output, PyStr t)) ts @ (ch, PyToolResult r) # rest) fin)
        b64 message history k p m csp n hide
   = \<lparr>history_after = history @ [\<lparr>role = ''user'', content = message\<rparr>],
      yielded = map (\<lambda>i. concat (take (Suc i) ts)) [0..<length ts],
      raised = Some (NameError ''ToolUseBlock'')\<rparr>"
proof -
  have "chat_stream
          (forwarding (map (\<lambda>t. (Output, PyStr t)) ts @ (ch, PyToolResult r) # rest) fin)
          b64 message history k p m csp n hide
        = (map FText ts, Some (NameError ''ToolUseBlock''))"
    by (simp add: chat_stream_def forwarding_def relay_texts_then_tool_result)
  then show ?thesis by (rule chat_text_stream_raises)
qed

text \<open>
  The text \<^verbatim>\<open>a\<close>, a tool result with the output \<^verbatim>\<open>ok\<close>, the text \<^verbatim>\<open>b\<close>: one
  snapshot.
\<close>

theorem tool_result_and_later_chunks_get_no_snapshot_witness:
  "chat (forwarding [(Output, PyStr ''a''),
                     (ToolOutput, PyToolResult (ToolResult (Some ''ok'') None None)),
                     (Output, PyStr ''b'')] None)
        reject_all ''go'' [] ''key'' ''anthropic'' ''model'' [] 10 False
   = \<lparr>history_after = [\<lparr>role = ''user'', content = ''go''\<rparr>],
      yielded = [''a''],
      raised = Some (NameError ''ToolUseBlock'')\<rparr>"
  using tool_result_and_later_chunks_get_no_snapshot
    [of "[''a'']" ToolOutput "ToolResult (Some ''ok'') None None" "[(Output, PyStr ''b'')]" None
        reject_all "''go''" "[]" "''key''" "''anthropic''" "''model''" "[]" 10 False]
  by simp

text \<open>
  C7, as the code has it. In the branch for a tool result an image that does not decode
  makes the decoder's exception end the callback after it has yielded the output, if
  there is one, and the error, if there is one, marked as such; this only when images
  are not hidden: a hidden image is not decoded, the same fragments are yielded and
  nothing fails. \<^verbatim>\<open>chat\<close> has no handler: when the stream of the loop yields strings
  and then ends with an exception, the run ends with that exception, the snapshots are
  those of the strings and nothing is recorded for the failure, and only the user turn
  is in the history.
\<close>

theorem decode_failure_is_not_recovered:
  "(img \<noteq> [] \<and> b64 img = Inl e \<longrightarrow>
      tool_result_branch b64 False (ToolResult out err (Some img))
        = ((case out of Some s \<Rightarrow> if s \<noteq> [] then [FText s] else [] | None \<Rightarrow> []) @
           (case err of Some s \<Rightarrow> if s \<noteq> [] then [FText (''Error: '' @ s)] else []
                      | None \<Rightarrow> []),
           Some e) \<and>
      tool_result_branch b64 True (ToolResult out err (Some img))
        = ((case out of Some s \<Rightarrow> if s \<noteq> [] then [FText s] else [] | None \<Rightarrow> []) @
           (case err of Some s \<Rightarrow> if s \<noteq> [] then [FText (''Error: '' @ s)] else []
                      | None \<Rightarrow> []),
           None)) \<and>
   (chat_stream loop b64 message history k p m csp n hide = (map FText ts, Some e') \<longrightarrow>
      raised (chat loop b64 message history k p m csp n hide) = Some e' \<and>
      yielded (chat loop b64 message history k p m csp n hide)
        = map (\<lambda>i. concat (take (Suc i) ts)) [0..<length ts] \<and>
      history_after (chat loop b64 message history k p m csp n hide)
        = history @ [\<lparr>role = ''user'', content = message\<rparr>])"
proof (intro conjI impI)
  assume "img \<noteq> [] \<and> b64 img = Inl e"
  then show "tool_result_branch b64 False (ToolResult out err (Some img))
        = ((case out of Some s \<Rightarrow> if s \<noteq> [] then [FText s] else [] | None \<Rightarrow> []) @
           (case err of Some s \<Rightarrow> if s \<noteq> [] then [FText (''Error: '' @ s)] else []
                      | None \<Rightarrow> []),
           Some e)"
    by (simp add: tool_result_branch_def Let_def)
  show "tool_result_branch b64 True (ToolResult out err (Some img))
        = ((case out of Some s \<Rightarrow> if s \<noteq> [] then [FText s] else [] | None \<Rightarrow> []) @
           (case err of Some s \<Rightarrow> if s \<noteq> [] then [FText (''Error: '' @ s)] else []
                      | None \<Rightarrow> []),
           None)"
    by (simp add: tool_result_branch_def Let_def)
next
  assume a: "chat_stream loop b64 message history k p m csp n hide = (map FText ts, Some e')"
  note c = chat_text_stream_raises [OF a]
  show "raised (chat loop b64 message history k p m csp n hide) = Some e'" by (simp add: c)
  show "yielded (chat loop b64 message history k p m csp n hide)
        = map (\<lambda>i. concat (take (Suc i) ts)) [0..<length ts]" by (simp add: c)
  show "history_after (chat loop b64 message history k p m csp n hide)
        = history @ [\<lparr>role = ''user'', content = message\<rparr>]" by (simp add: c)
qed

text \<open>
  A tool result with an output, an error and the image \<^verbatim>\<open>abc\<close>, which does not
  decode; and a stream that yields the two fragments and then ends with the decoder's
  exception.
\<close>

theorem decode_failure_is_not_recovered_witness:
  "tool_result_branch reject_all False (ToolResult (Some ''done'') (Some ''slow'') (Some ''abc''))
     = ([FText ''done'', FText ''Error: slow''], Some BinasciiError) \<and>
   chat (streaming ([FText ''done'', FText ''Error: slow''], Some BinasciiError)) reject_all
      ''take a screenshot'' [] ''key'' ''anthropic'' ''model'' [] 10 False
     = \<lparr>history_after = [\<lparr>role = ''user'', content = ''take a screenshot''\<rparr>],
        yielded = [''done'', ''doneError: slow''],
        raised = Some BinasciiError\<rparr>"
proof -
  let ?loop = "streaming ([FText ''done'', FText ''Error: slow''], Some BinasciiError)"
  let ?run = "chat ?loop reject_all ''take a screenshot'' [] ''key'' ''anthropic'' ''model'' []
                10 False"
  have i: "''abc'' \<noteq> [] \<and> reject_all ''abc'' = Inl BinasciiError"
    by (simp add: reject_all_def)
  have s: "chat_stream ?loop reject_all ''take a screenshot'' [] ''key'' ''anthropic'' ''model'' []
             10 False = (map FText [''done'', ''Error: slow''], Some BinasciiError)"
    by (simp add: chat_stream_def streaming_def)
  note t = decode_failure_is_not_recovered
    [where img = "''abc''" and ?b64.0 = reject_all and e = BinasciiError and out = "Some ''done''"
       and err = "Some ''slow''" and loop = ?loop and message = "''take a screenshot''"
       and history = "[]" and k = "''key''" and p = "''anthropic''" and m = "''model''"
       and csp = "[]" and n = 10 and hide = False and ts = "[''done'', ''Error: slow'']"
       and e' = BinasciiError]
  from t i have b: "tool_result_branch reject_all False
                      (ToolResult (Some ''done'') (Some ''slow'') (Some ''abc''))
                    = ([FText ''done'', FText ''Error: slow''], Some BinasciiError)"
    by simp
  from t s have "raised ?run = Some BinasciiError"
    and "yielded ?run = map (\<lambda>i. concat (take (Suc i) [''done'', ''Error: slow'']))
                          [0..<length [''done'', ''Error: slow'']]"
    and "history_after ?run = [] @ [\<lparr>role = ''user'', content = ''take a screenshot''\<rparr>]"
    by blast+
  then have c: "?run = \<lparr>history_after = [\<lparr>role = ''user'', content = ''take a screenshot''\<rparr>],
        yielded = [''done'', ''doneError: slow''], raised = Some BinasciiError\<rparr>"
    by (cases ?run) (simp add: upt_rec)
  from b c show ?thesis by (rule conjI)
qed

text \<open>
  C7 as stated fails. A tool result whose image does not decode ends the callback with
  \<^verbatim>\<open>NameError\<close>, not with an error of the decoder; in its branch, with images hidden,
  the image is not decoded and nothing fails; and when the decoder's exception ends the
  stream the run raises with no snapshot and no assistant turn.
\<close>

theorem undecodable_image_is_no_decode_error:
  "output_callback reject_all False TOOL (PyToolResult (ToolResult None None (Some ''abc'')))
     = ([], Some (NameError ''ToolUseBlock'')) \<and>
   tool_result_branch reject_all True (ToolResult None None (Some ''abc'')) = ([], None) \<and>
   chat (streaming ([], Some BinasciiError)) reject_all ''take a screenshot'' []
      ''key'' ''anthropic'' ''model'' [] 10 False
     = \<lparr>history_after = [\<lparr>role = ''user'', content = ''take a screenshot''\<rparr>],
        yielded = [],
        raised = Some BinasciiError\<rparr>"
  by (simp add: chat_eval tool_result_branch_def)

end
